theory Spec2Isabelle
  imports Main
begin

section \<open>Dynamic QR: data model\<close>

text \<open>
  The documents of \<^verbatim>\<open>models/DynamicQR.js\<close>. A mongoose sub-document with conditional
  fields is a record of optional fields; a \<^verbatim>\<open>Date\<close> is its number of milliseconds.
  JavaScript strings are modelled as \<open>string\<close>; an absent (\<^verbatim>\<open>undefined\<close> or \<^verbatim>\<open>null\<close>) string
  is \<open>None\<close>.
\<close>

record content =
  ctype :: string
  ctext :: "string option"
  url :: "string option"
  linkTitle :: "string option"
  fileName :: "string option"
  originalName :: "string option"
  filePath :: "string option"
  fileSize :: "nat option"
  mimeType :: "string option"
  contactName :: "string option"
  phone :: "string option"
  email :: "string option"
  company :: "string option"
  description :: "string option"
  lastUpdated :: nat

record historyEntry =
  h_type :: string
  h_content :: content
  changedAt :: nat

record settings =
  allowTracking :: bool
  customDomain :: "string option"
  password :: "string option"

record qr =
  qr_id :: string
  title :: string
  qrCodePath :: string
  currentContent :: content
  createdDate :: nat
  scanCount :: nat
  lastScanned :: "nat option"
  contentHistory :: "historyEntry list"
  isActive :: bool
  qsettings :: settings

text \<open>
  The world the controllers act on: the \<^verbatim>\<open>DynamicQR\<close> collection (its \<^verbatim>\<open>id\<close> field has a
  unique index, so the collection is a map from ids), the paths that exist on disk, and the
  analytics records written so far.
\<close>

record analytics =
  a_qr :: string
  a_ip :: string
  a_userAgent :: "string option"
  a_device :: string
  a_referer :: "string option"
  a_timestamp :: nat
  a_country :: string

record state =
  db :: "string \<rightharpoonup> qr"
  files :: "string set"
  analyticsLog :: "analytics list"

section \<open>JavaScript helpers\<close>

text \<open>A string is truthy when it is present and not empty.\<close>

fun truthy :: "string option \<Rightarrow> bool" where
  "truthy None = False"
| "truthy (Some s) = (s \<noteq> [])"

definition isSpace :: "char \<Rightarrow> bool" where
  "isSpace c = (c \<in> set [CHR 0x09, CHR 0x0A, CHR 0x0B, CHR 0x0C, CHR 0x0D, CHR 0x20, CHR 0xA0])"

definition isDigit :: "char \<Rightarrow> bool" where
  "isDigit c = (c \<in> set ''0123456789'')"

definition trim :: "string \<Rightarrow> string" where
  "trim s = rev (dropWhile isSpace (rev (dropWhile isSpace s)))"

fun startsWith :: "string \<Rightarrow> string \<Rightarrow> bool" where
  "startsWith s [] = True"
| "startsWith [] (p # ps) = False"
| "startsWith (c # cs) (p # ps) = (c = p \<and> startsWith cs ps)"

fun str_includes :: "string \<Rightarrow> string \<Rightarrow> bool" where
  "str_includes [] t = (t = [])"
| "str_includes (c # cs) t = (startsWith (c # cs) t \<or> str_includes cs t)"

definition toLowerChar :: "char \<Rightarrow> char" where
  "toLowerChar c =
     (let n = (of_char c :: nat) in if 65 \<le> n \<and> n \<le> 90 then char_of (n + 32) else c)"

definition toLowerCase :: "string \<Rightarrow> string" where
  "toLowerCase s = map toLowerChar s"

text \<open>\<^verbatim>\<open>v || d\<close> on strings.\<close>

definition orElse :: "string option \<Rightarrow> string \<Rightarrow> string" where
  "orElse v d = (case v of None \<Rightarrow> d | Some x \<Rightarrow> if x = [] then d else x)"

text \<open>\<^verbatim>\<open>xs.slice(-k)\<close>: the last \<open>k\<close> elements, all of them when there are fewer.\<close>

definition slice_last :: "nat \<Rightarrow> 'a list \<Rightarrow> 'a list" where
  "slice_last k xs = drop (length xs - k) xs"

section \<open>Errors\<close>

text \<open>
  \<^verbatim>\<open>createAppError(message, statusCode)\<close>; the messages are named rather than spelled.
  \<open>ValidationError\<close> is mongoose's, thrown when a schema validator refuses the document;
  \<open>StoreError\<close> is any other rejection of \<^verbatim>\<open>save()\<close> by the document store, \<open>QRCodeError\<close>
  the error \<^verbatim>\<open>generateQRCode\<close> throws, \<open>TypeError\<close> a property read on \<^verbatim>\<open>undefined\<close>.
\<close>

datatype message =
    QRNotFound
  | RequiredFields "string list"
  | TitleTooLong
  | UniqueIdFailed
  | InvalidContentType string
  | TextEmpty
  | TextTooLong
  | UrlEmpty
  | InvalidUrl
  | FileRequired
  | ContactRequired
  | InvalidPhone
  | InvalidEmail
  | WrongContentType

datatype error =
    AppError message nat
  | ValidationError
  | StoreError
  | QRCodeError
  | TypeError

section \<open>The model's methods\<close>

text \<open>
  A document is loaded whole, or with the paths a \<^verbatim>\<open>select\<close> names; a path left out reads
  as \<^verbatim>\<open>undefined\<close>. A document made with \<^verbatim>\<open>new DynamicQR\<close> is whole.
\<close>

datatype selection = Whole | Select "string list"

fun isSelected :: "selection \<Rightarrow> string \<Rightarrow> bool" where
  "isSelected Whole p = True"
| "isSelected (Select ps) p = (p \<in> set ps)"

text \<open>
  The validator of the schema's \<^verbatim>\<open>contentHistory\<close> path, and the \<^verbatim>\<open>pre('save')\<close> hook, which
  keeps the last 50 history entries and throws when the history was not loaded
  (\<^verbatim>\<open>this.contentHistory.length\<close> of \<^verbatim>\<open>undefined\<close>).
\<close>

definition historyValidator :: "historyEntry list \<Rightarrow> bool" where
  "historyValidator v = (length v \<le> 50)"

definition preSave :: "selection \<Rightarrow> qr \<Rightarrow> error + qr" where
  "preSave sel q =
     (if \<not> isSelected sel ''contentHistory'' then Inl TypeError
      else if length (contentHistory q) > 50
      then Inr (q\<lparr>contentHistory := slice_last 50 (contentHistory q)\<rparr>)
      else Inr q)"

text \<open>
  \<^verbatim>\<open>save()\<close>, in mongoose's order: the document is validated first (validation is the
  first of the pre-save steps), then the schema's own \<^verbatim>\<open>pre('save')\<close> hook runs, then the
  document is written under its id. Of the validators the one of the history is modelled,
  on a document that loaded the path; whether the store accepts the rest (the other
  validators, the write itself) is the caller's parameter \<open>ok\<close>. A rejected save leaves the
  collection as it was.
\<close>

definition save :: "selection \<Rightarrow> bool \<Rightarrow> qr \<Rightarrow> state \<Rightarrow> error + (qr \<times> state)" where
  "save sel ok q s =
     (if isSelected sel ''contentHistory'' \<and> \<not> historyValidator (contentHistory q)
      then Inl ValidationError
      else (case preSave sel q of
              Inl err \<Rightarrow> Inl err
            | Inr q' \<Rightarrow>
                if ok then Inr (q', s\<lparr>db := (db s)(qr_id q \<mapsto> q')\<rparr>) else Inl StoreError))"

definition addToHistory :: "nat \<Rightarrow> content \<Rightarrow> qr \<Rightarrow> qr" where
  "addToHistory t oldContent q =
     q\<lparr>contentHistory := contentHistory q @
        [\<lparr>h_type = ctype oldContent, h_content = oldContent, changedAt = t\<rparr>]\<rparr>"

definition incrementScan ::
  "selection \<Rightarrow> bool \<Rightarrow> nat \<Rightarrow> qr \<Rightarrow> state \<Rightarrow> error + (qr \<times> state)" where
  "incrementScan sel ok t q s =
     save sel ok (q\<lparr>scanCount := scanCount q + 1, lastScanned := Some t\<rparr>) s"

text \<open>
  \<^verbatim>\<open>findOne({ id })\<close> and \<^verbatim>\<open>findOne({ id, isActive: true })\<close>; the \<^verbatim>\<open>select\<close> a handler adds
  is the selection it passes on with the document.
\<close>

definition findOne :: "state \<Rightarrow> string \<Rightarrow> qr option" where
  "findOne s i = db s i"

definition findOneActive :: "state \<Rightarrow> string \<Rightarrow> qr option" where
  "findOneActive s i =
     (case db s i of None \<Rightarrow> None | Some q \<Rightarrow> if isActive q then Some q else None)"

section \<open>Scan controller\<close>

text \<open>
  What a request meets in its environment: the clock (\<^verbatim>\<open>new Date()\<close>) and the store's
  answer to a \<^verbatim>\<open>save()\<close>. A scan request is its route parameter, its query string and the
  headers the analytics read. A query value that is not a string is never \<^verbatim>\<open>===\<close> to a
  stored password, as a different string is not.
\<close>

record env =
  now :: nat
  saveOk :: bool

record scanRequest =
  params_id :: string
  query_password :: "string option"
  query_format :: "string option"
  req_ip :: string
  userAgent :: "string option"
  referer :: "string option"
  cfCountry :: "string option"

text \<open>
  What a handler answers. The HTML pages are named by the template that builds them and
  carry the values the template interpolates; \<open>Stream\<close> carries the Content-Type, the
  Content-Length, the disposition and file name of Content-Disposition, and the path piped
  to the client; \<open>Failed\<close> is an error handed to \<^verbatim>\<open>next\<close>; \<open>ErrorJson\<close> is the answer
  \<^verbatim>\<open>{ success: false, error: ... }\<close> of an error middleware, with its status and the error
  whose message it shows.
\<close>

datatype page =
    QRNotFoundPage string
  | PasswordPage string nat
  | EmptyPage string "string option" nat
  | TextPage string "string option" "string option" nat nat
  | FileMissingPage string nat
  | ServerErrorPage
  | ContactPage string content nat
  | PreviewEmpty string nat
  | PreviewText string string nat
  | PreviewLink string "string option" "string option" nat
  | PreviewFile string "string option" "nat option" "string option" nat
  | PreviewContact string content nat
  | PreviewBlank

datatype json = JStr string | JNum nat | JBool bool | JDate nat | JObj "(string \<times> json) list"

datatype response =
    Html nat string page
  | Redirect "string option"
  | Stream string nat string "string option" string
  | Send "(string \<times> string) list" string
  | PlainText nat string
  | Json nat json
  | JsonQR nat qr
  | Failed error
  | ErrorJson nat error

definition detectDevice :: "string \<Rightarrow> string" where
  "detectDevice userAgent0 =
     (let ua = toLowerCase userAgent0 in
      if str_includes ua ''mobile'' \<or> str_includes ua ''android'' \<or> str_includes ua ''iphone''
      then ''mobile''
      else if str_includes ua ''tablet'' \<or> str_includes ua ''ipad'' then ''tablet''
      else ''desktop'')"

definition recordScanAnalytics ::
  "selection \<Rightarrow> env \<Rightarrow> qr \<Rightarrow> scanRequest \<Rightarrow> state \<Rightarrow> state" where
  "recordScanAnalytics sel e q req s =
     (if \<not> (isSelected sel ''settings'' \<and> allowTracking (qsettings q)) then s
      else s\<lparr>analyticsLog := analyticsLog s @
        [\<lparr>a_qr = qr_id q, a_ip = req_ip req, a_userAgent = userAgent req,
          a_device = detectDevice (case userAgent req of None \<Rightarrow> [] | Some u \<Rightarrow> u),
          a_referer = referer req, a_timestamp = now e,
          a_country = orElse (cfCountry req) ''unknown''\<rparr>]\<rparr>)"

definition checkQRPassword :: "qr \<Rightarrow> string option \<Rightarrow> bool" where
  "checkQRPassword q providedPassword =
     (if \<not> truthy (password (qsettings q)) then True
      else password (qsettings q) = providedPassword)"

definition isViewable :: "string \<Rightarrow> bool" where
  "isViewable m =
     (startsWith m ''image/'' \<or> m = ''application/pdf'' \<or> startsWith m ''text/'' \<or>
      startsWith m ''video/'' \<or> startsWith m ''audio/'')"

text \<open>
  \<^verbatim>\<open>handleFileServing\<close>. Reading \<^verbatim>\<open>startsWith\<close> of an absent mime type and setting
  Content-Length to an absent size both throw inside the \<^verbatim>\<open>try\<close>, whose \<^verbatim>\<open>catch\<close> answers
  the 500 page.
\<close>

definition handleFileServing :: "qr \<Rightarrow> content \<Rightarrow> state \<Rightarrow> response" where
  "handleFileServing q c s =
     (case filePath c of
        None \<Rightarrow> Html 404 ''Fayl Topilmadi'' (FileMissingPage (title q) (scanCount q))
      | Some p \<Rightarrow>
          if p = [] \<or> p \<notin> files s
          then Html 404 ''Fayl Topilmadi'' (FileMissingPage (title q) (scanCount q))
          else (case mimeType c of
                  None \<Rightarrow> Html 500 ''Server Xatoligi'' ServerErrorPage
                | Some m \<Rightarrow>
                    (case fileSize c of
                       None \<Rightarrow> Html 500 ''Server Xatoligi'' ServerErrorPage
                     | Some n \<Rightarrow>
                         Stream m n (if isViewable m then ''inline'' else ''attachment'')
                           (originalName c) p)))"

definition vline :: "string \<Rightarrow> string option \<Rightarrow> string \<Rightarrow> string" where
  "vline tag v suffix =
     (case v of None \<Rightarrow> [] | Some x \<Rightarrow> if x = [] then [] else tag @ x @ suffix @ [CHR 0x0A])"

definition generateVCard :: "content \<Rightarrow> string" where
  "generateVCard c =
     ''BEGIN:VCARD'' @ [CHR 0x0A] @ ''VERSION:3.0'' @ [CHR 0x0A] @
     vline ''FN:'' (contactName c) [] @ vline ''N:'' (contactName c) '';;;;'' @
     vline ''TEL;TYPE=CELL:'' (phone c) [] @
     vline ''EMAIL:'' (email c) [] @
     vline ''ORG:'' (company c) [] @
     ''END:VCARD''"

definition handleContactDisplay :: "qr \<Rightarrow> content \<Rightarrow> scanRequest \<Rightarrow> response" where
  "handleContactDisplay q c req =
     (if query_format req = Some ''vcard'' \<or> query_format req = Some ''vcf''
      then Send [(''Content-Type'', ''text/vcard; charset=utf-8''),
                 (''Content-Disposition-filename'',
                    orElse (contactName c) ''contact'' @ ''.vcf'')]
             (generateVCard c)
      else Html 200 (title q) (ContactPage (title q) c (scanCount q)))"

text \<open>\<^verbatim>\<open>scanQR\<close>, the handler of \<^verbatim>\<open>GET /scan/:id\<close>.\<close>

definition scanQR :: "env \<Rightarrow> scanRequest \<Rightarrow> state \<Rightarrow> state \<times> response" where
  "scanQR e req s =
     (case findOneActive s (params_id req) of
        None \<Rightarrow> (s, Html 404 ''QR Topilmadi'' (QRNotFoundPage (params_id req)))
      | Some q0 \<Rightarrow>
          if \<not> checkQRPassword q0 (query_password req)
          then (s, Html 200 ''Parol Kerak'' (PasswordPage (title q0) (scanCount q0)))
          else
            (case incrementScan Whole (saveOk e) (now e) q0 s of
               Inl err \<Rightarrow> (s, Failed err)
             | Inr (q, s1) \<Rightarrow>
                 let s2 = recordScanAnalytics Whole e q req s1; c = currentContent q in
                 if ctype c = ''empty''
                 then (s2, Html 200 (title q) (EmptyPage (title q) (description c) (scanCount q)))
                 else if ctype c = ''text''
                 then (s2, Html 200 (title q)
                             (TextPage (title q) (ctext c) (description c) (scanCount q)
                                (lastUpdated c)))
                 else if ctype c = ''link'' then (s2, Redirect (url c))
                 else if ctype c = ''file'' then (s2, handleFileServing q c s2)
                 else if ctype c = ''contact'' then (s2, handleContactDisplay q c req)
                 else (s2, Failed (AppError WrongContentType 500))))"

text \<open>
  \<^verbatim>\<open>getQRScanInfo\<close>, the handler of \<^verbatim>\<open>GET /api/scan-info/:id\<close>. \<^verbatim>\<open>JSON.stringify\<close> leaves
  out a key whose value is \<^verbatim>\<open>undefined\<close>. The host name of a URL is the URL parser's, the
  parameter \<open>hostname\<close>; \<^verbatim>\<open>new URL\<close> throws where it is \<open>None\<close>. Every path the handler
  reads is in its \<^verbatim>\<open>select\<close>, and it saves nothing.
\<close>

definition optStr :: "string \<Rightarrow> string option \<Rightarrow> (string \<times> json) list" where
  "optStr k v = (case v of None \<Rightarrow> [] | Some x \<Rightarrow> [(k, JStr x)])"

definition optNum :: "string \<Rightarrow> nat option \<Rightarrow> (string \<times> json) list" where
  "optNum k v = (case v of None \<Rightarrow> [] | Some x \<Rightarrow> [(k, JNum x)])"

definition optDate :: "string \<Rightarrow> nat option \<Rightarrow> (string \<times> json) list" where
  "optDate k v = (case v of None \<Rightarrow> [] | Some x \<Rightarrow> [(k, JDate x)])"

definition textPreview :: "string option \<Rightarrow> string" where
  "textPreview t =
     (case t of None \<Rightarrow> ''undefined''
      | Some x \<Rightarrow> take 100 x @ (if length x > 100 then ''...'' else []))"

definition contentInfo :: "(string \<Rightarrow> string option) \<Rightarrow> content \<Rightarrow> error + (string \<times> json) list" where
  "contentInfo hostname c =
     (if ctype c = ''text'' then Inr [(''preview'', JStr (textPreview (ctext c)))]
      else if ctype c = ''link'' then
        (case url c of
           None \<Rightarrow> Inl TypeError
         | Some u \<Rightarrow>
             (case hostname u of
                None \<Rightarrow> Inl TypeError
              | Some h \<Rightarrow> Inr (optStr ''linkTitle'' (linkTitle c) @ [(''domain'', JStr h)])))
      else if ctype c = ''file'' then
        Inr (optStr ''fileName'' (originalName c) @ optNum ''fileSize'' (fileSize c) @
             optStr ''fileType'' (mimeType c))
      else if ctype c = ''contact'' then
        Inr (optStr ''contactName'' (contactName c) @
             [(''hasPhone'', JBool (truthy (phone c))), (''hasEmail'', JBool (truthy (email c)))])
      else Inr [])"

definition getQRScanInfo :: "(string \<Rightarrow> string option) \<Rightarrow> string \<Rightarrow> state \<Rightarrow> state \<times> response" where
  "getQRScanInfo hostname i s =
     (case findOneActive s i of
        None \<Rightarrow> (s, Failed (AppError QRNotFound 404))
      | Some q \<Rightarrow>
          if truthy (password (qsettings q))
          then (s, Json 200 (JObj [(''success'', JBool True),
                  (''qr'', JObj [(''id'', JStr (qr_id q)),
                                 (''title'', JStr (title q)),
                                 (''contentType'', JStr (ctype (currentContent q))),
                                 (''scanCount'', JNum (scanCount q)),
                                 (''createdDate'', JDate (createdDate q)),
                                 (''isPasswordProtected'', JBool True),
                                 (''description'', JStr ''Bu QR code parol bilan himoyalangan'')])]))
          else
            (case contentInfo hostname (currentContent q) of
               Inl err \<Rightarrow> (s, Failed err)
             | Inr extra \<Rightarrow>
                 (s, Json 200 (JObj [(''success'', JBool True),
                    (''qr'', JObj ([(''id'', JStr (qr_id q)),
                                    (''title'', JStr (title q)),
                                    (''contentType'', JStr (ctype (currentContent q))),
                                    (''scanCount'', JNum (scanCount q))] @
                                   optDate ''lastScanned'' (lastScanned q) @
                                   [(''createdDate'', JDate (createdDate q)),
                                    (''isPasswordProtected'', JBool False)] @
                                   extra @
                                   (if truthy (description (currentContent q))
                                    then optStr ''description'' (description (currentContent q))
                                    else [])))]))))"

text \<open>
  \<^verbatim>\<open>previewQR\<close>, the handler of \<^verbatim>\<open>GET /preview/:id\<close>. It calls no method of the model that
  writes, and every path it reads is in its \<^verbatim>\<open>select\<close>; reading the length of an absent
  text throws.
\<close>

definition previewPage :: "qr \<Rightarrow> error + page" where
  "previewPage q =
     (let c = currentContent q in
      if ctype c = ''empty'' then Inr (PreviewEmpty (title q) (scanCount q))
      else if ctype c = ''text'' then
        (case ctext c of
           None \<Rightarrow> Inl TypeError
         | Some t \<Rightarrow>
             Inr (PreviewText (title q) (if length t > 200 then take 200 t @ ''...'' else t)
                    (scanCount q)))
      else if ctype c = ''link'' then
        Inr (PreviewLink (title q) (if truthy (linkTitle c) then linkTitle c else url c) (url c)
               (scanCount q))
      else if ctype c = ''file'' then
        Inr (PreviewFile (title q) (originalName c) (fileSize c) (mimeType c) (scanCount q))
      else if ctype c = ''contact'' then Inr (PreviewContact (title q) c (scanCount q))
      else Inr PreviewBlank)"

definition previewQR :: "string \<Rightarrow> state \<Rightarrow> state \<times> response" where
  "previewQR i s =
     (case findOneActive s i of
        None \<Rightarrow> (s, Failed (AppError QRNotFound 404))
      | Some q \<Rightarrow>
          (case previewPage q of
             Inl err \<Rightarrow> (s, Failed err)
           | Inr pg \<Rightarrow> (s, Html 200 (title q @ '' - Preview'') pg)))"

text \<open>
  \<^verbatim>\<open>quickRedirect\<close>, the handler of \<^verbatim>\<open>GET /r/:id\<close>. It loads the document with
  \<^verbatim>\<open>select('id currentContent scanCount')\<close> and calls \<^verbatim>\<open>incrementScan\<close> and
  \<^verbatim>\<open>recordScanAnalytics\<close> on that document.
\<close>

definition quickRedirectSelect :: selection where
  "quickRedirectSelect = Select [''id'', ''currentContent'', ''scanCount'']"

definition quickRedirect :: "env \<Rightarrow> scanRequest \<Rightarrow> state \<Rightarrow> state \<times> response" where
  "quickRedirect e req s =
     (case findOneActive s (params_id req) of
        None \<Rightarrow> (s, PlainText 404 ''QR topilmadi'')
      | Some q0 \<Rightarrow>
          if ctype (currentContent q0) = ''link''
          then
            (case incrementScan quickRedirectSelect (saveOk e) (now e) q0 s of
               Inl err \<Rightarrow> (s, Failed err)
             | Inr (q, s1) \<Rightarrow>
                 (recordScanAnalytics quickRedirectSelect e q req s1,
                  Redirect (url (currentContent q))))
          else (s, Redirect (Some (''/scan/'' @ params_id req))))"

section \<open>QR controller\<close>

text \<open>
  \<^verbatim>\<open>generateUniqueId\<close>: the decimal clock reading followed by the random suffix; both are the
  environment's.
\<close>

definition generateUniqueId :: "string \<times> string \<Rightarrow> string" where
  "generateUniqueId tr = fst tr @ snd tr"

definition validateRequiredFields :: "(string \<times> string option) list \<Rightarrow> error + unit" where
  "validateRequiredFields required =
     (let missingFields = map fst (filter (\<lambda>f. \<not> truthy (snd f)) required) in
      if length missingFields > 0 then Inl (AppError (RequiredFields missingFields) 400)
      else Inr ())"

definition validateContentType :: "string \<Rightarrow> error + unit" where
  "validateContentType contentType =
     (if contentType \<notin> set [''text'', ''link'', ''file'', ''contact'', ''empty'']
      then Inl (AppError (InvalidContentType contentType) 400)
      else Inr ())"

text \<open>
  \<^verbatim>\<open>validateUrl\<close>: \<open>protocol\<close> is the URL parser, \<open>None\<close> where \<^verbatim>\<open>new URL\<close> throws. Both
  failures are rethrown as the same 400.
\<close>

definition validateUrl :: "(string \<Rightarrow> string option) \<Rightarrow> string \<Rightarrow> error + unit" where
  "validateUrl protocol u =
     (case protocol u of
        None \<Rightarrow> Inl (AppError InvalidUrl 400)
      | Some p \<Rightarrow>
          if p \<notin> set [''http:'', ''https:''] then Inl (AppError InvalidUrl 400) else Inr ())"

text \<open>The regular expression \<^verbatim>\<open>^[^\s@]+@[^\s@]+\.[^\s@]+$\<close>.\<close>

definition emailChar :: "char \<Rightarrow> bool" where
  "emailChar c = (\<not> isSpace c \<and> c \<noteq> CHR ''@'')"

definition emailRegex :: "string \<Rightarrow> bool" where
  "emailRegex s =
     (let a = takeWhile (\<lambda>c. c \<noteq> CHR ''@'') s; r = drop (length a + 1) s in
      a \<noteq> [] \<and> length a < length s \<and> list_all emailChar a \<and> list_all emailChar r \<and>
      CHR ''.'' \<in> set (butlast (tl r)))"

definition validateEmail :: "string \<Rightarrow> error + unit" where
  "validateEmail e = (if \<not> emailRegex e then Inl (AppError InvalidEmail 400) else Inr ())"

text \<open>The regular expression \<^verbatim>\<open>^\+?[\d\s\-\(\)]{7,20}$\<close>.\<close>

definition phoneChar :: "char \<Rightarrow> bool" where
  "phoneChar c = (isDigit c \<or> isSpace c \<or> c \<in> set ''-()'')"

definition phoneRegex :: "string \<Rightarrow> bool" where
  "phoneRegex s =
     (let r = (case s of [] \<Rightarrow> [] | c # cs \<Rightarrow> if c = CHR ''+'' then cs else s) in
      7 \<le> length r \<and> length r \<le> 20 \<and> list_all phoneChar r)"

definition validatePhone :: "string \<Rightarrow> error + unit" where
  "validatePhone p = (if \<not> phoneRegex p then Inl (AppError InvalidPhone 400) else Inr ())"

subsection \<open>The file system\<close>

text \<open>
  \<^verbatim>\<open>deleteFile\<close> of the upload middleware and \<^verbatim>\<open>deleteQRCode\<close>, \<^verbatim>\<open>generateQRCode\<close> of the QR
  generator. An existing path is unlinked. \<^verbatim>\<open>QRCode.toFile\<close> either writes the image or
  throws, having left a file behind or not.
\<close>

definition deleteFile :: "string option \<Rightarrow> state \<Rightarrow> state" where
  "deleteFile p s =
     (case p of
        None \<Rightarrow> s
      | Some f \<Rightarrow> if f \<noteq> [] \<and> f \<in> files s then s\<lparr>files := files s - {f}\<rparr> else s)"

definition qrPathOf :: "string \<Rightarrow> string" where
  "qrPathOf qrId = ''uploads/qrcodes/dynamic_qr_'' @ qrId @ ''.png''"

definition deleteQRCode :: "string \<Rightarrow> state \<Rightarrow> state" where
  "deleteQRCode qrId s =
     (if qrPathOf qrId \<in> files s then s\<lparr>files := files s - {qrPathOf qrId}\<rparr> else s)"

datatype toFile = Written | Threw bool

definition generateQRCode :: "toFile \<Rightarrow> string \<Rightarrow> state \<Rightarrow> state \<times> (error + string)" where
  "generateQRCode w qrId s =
     (case w of
        Written \<Rightarrow> (s\<lparr>files := insert (qrPathOf qrId) (files s)\<rparr>, Inr (qrPathOf qrId))
      | Threw partial \<Rightarrow>
          (if partial then s\<lparr>files := insert (qrPathOf qrId) (files s)\<rparr> else s, Inl QRCodeError))"

subsection \<open>Creating a QR\<close>

text \<open>
  The request body, and what the creation meets: the clock, the store's answer to the save,
  the pair of strings the \<open>k\<close>-th call of \<^verbatim>\<open>generateUniqueId\<close> draws, and what
  \<^verbatim>\<open>QRCode.toFile\<close> does.
\<close>

record createRequest =
  body_title :: "string option"
  body_description :: "string option"

record createEnv = env +
  draws :: "nat \<Rightarrow> string \<times> string"
  toFileResult :: toFile

text \<open>
  The \<^verbatim>\<open>while (!isUnique && attempts < 5)\<close> loop, on its three variables; the \<open>k\<close>-th
  iteration (from 0) makes the \<open>k\<close>-th draw. An iteration that sets \<^verbatim>\<open>isUnique\<close> has set
  \<^verbatim>\<open>qrId\<close>, so in \<^verbatim>\<open>createQR\<close> below the loop ends either with an id and \<^verbatim>\<open>isUnique\<close>, or
  with \<^verbatim>\<open>!isUnique\<close>, the case of the \<^verbatim>\<open>throw\<close>.
\<close>

function uniqueIdLoop ::
  "state \<Rightarrow> (nat \<Rightarrow> string \<times> string) \<Rightarrow> string option \<Rightarrow> bool \<Rightarrow> nat \<Rightarrow> string option \<times> bool \<times> nat"
where
  "uniqueIdLoop s d qrId isUnique attempts =
     (if \<not> isUnique \<and> attempts < 5
      then let qrId' = generateUniqueId (d attempts);
               existing = findOne s qrId'
           in uniqueIdLoop s d (Some qrId') (existing = None) (attempts + 1)
      else (qrId, isUnique, attempts))"
  by pat_completeness auto
termination
  by (relation "measure (\<lambda>(s, d, qrId, isUnique, attempts). 5 - attempts)") auto

definition emptyContent :: "string option \<Rightarrow> nat \<Rightarrow> content" where
  "emptyContent d t =
     \<lparr>ctype = ''empty'', ctext = None, url = None, linkTitle = None, fileName = None,
      originalName = None, filePath = None, fileSize = None, mimeType = None,
      contactName = None, phone = None, email = None, company = None,
      description = d, lastUpdated = t\<rparr>"

definition newDynamicQR :: "string \<Rightarrow> string \<Rightarrow> string \<Rightarrow> content \<Rightarrow> nat \<Rightarrow> qr" where
  "newDynamicQR i ttl path c t =
     \<lparr>qr_id = i, title = ttl, qrCodePath = path, currentContent = c, createdDate = t,
      scanCount = 0, lastScanned = None, contentHistory = [], isActive = True,
      qsettings = \<lparr>allowTracking = True, customDomain = None, password = None\<rparr>\<rparr>"

definition createQR :: "createEnv \<Rightarrow> createRequest \<Rightarrow> state \<Rightarrow> state \<times> response" where
  "createQR e req s =
     (case validateRequiredFields [(''title'', body_title req)] of
        Inl err \<Rightarrow> (s, Failed err)
      | Inr _ \<Rightarrow>
          let ttl = orElse (body_title req) [] in
          if length ttl > 200 then (s, Failed (AppError TitleTooLong 400))
          else
            (case uniqueIdLoop s (draws e) None False 0 of
               (Some qrId, True, attempts) \<Rightarrow>
                 (case generateQRCode (toFileResult e) qrId s of
                    (s1, Inl err) \<Rightarrow> (deleteQRCode qrId s1, Failed err)
                  | (s1, Inr qrPath) \<Rightarrow>
                      (case save Whole (saveOk e)
                              (newDynamicQR qrId (trim ttl) qrPath
                                 (emptyContent
                                    (Some (orElse (body_description req)
                                             ''Content hali qo'shilmagan''))
                                    (now e))
                                 (now e)) s1 of
                         Inl err \<Rightarrow> (deleteQRCode qrId s1, Failed err)
                       | Inr (newQR, s2) \<Rightarrow> (s2, JsonQR 201 newQR)))
             | _ \<Rightarrow> (s, Failed (AppError UniqueIdFailed 500))))"

subsection \<open>Updating the content\<close>

text \<open>
  The file multer stored for the request (\<^verbatim>\<open>req.file\<close>), the request with the body fields
  the handler reads, and the switch on the content type that validates the fields and fills
  the new content. The switch is fail-fast: the first \<^verbatim>\<open>throw\<close> is its result.
\<close>

record upload =
  filename :: string
  originalname :: string
  path :: string
  size_bytes :: nat
  mimetype :: string

record updateRequest =
  upd_id :: string
  upd_contentType :: "string option"
  upd_text :: "string option"
  upd_url :: "string option"
  upd_linkTitle :: "string option"
  upd_contactName :: "string option"
  upd_phone :: "string option"
  upd_email :: "string option"
  upd_company :: "string option"
  upd_description :: "string option"
  upd_file :: "upload option"

definition textCase :: "updateRequest \<Rightarrow> content \<Rightarrow> error + content" where
  "textCase req newContent =
     (case upd_text req of
        None \<Rightarrow> Inl (AppError TextEmpty 400)
      | Some t \<Rightarrow>
          if t = [] \<or> length (trim t) = 0 then Inl (AppError TextEmpty 400)
          else if length t > 5000 then Inl (AppError TextTooLong 400)
          else Inr (newContent\<lparr>ctext := Some (trim t)\<rparr>))"

definition linkCase ::
  "(string \<Rightarrow> string option) \<Rightarrow> updateRequest \<Rightarrow> content \<Rightarrow> error + content" where
  "linkCase protocol req newContent =
     (case upd_url req of
        None \<Rightarrow> Inl (AppError UrlEmpty 400)
      | Some u \<Rightarrow>
          if u = [] \<or> length (trim u) = 0 then Inl (AppError UrlEmpty 400)
          else (case validateUrl protocol (trim u) of
                  Inl err \<Rightarrow> Inl err
                | Inr _ \<Rightarrow>
                    Inr (newContent\<lparr>url := Some (trim u),
                           linkTitle := Some (orElse (map_option trim (upd_linkTitle req))
                                                (trim u))\<rparr>)))"

definition fileCase :: "updateRequest \<Rightarrow> content \<Rightarrow> error + content" where
  "fileCase req newContent =
     (case upd_file req of
        None \<Rightarrow> Inl (AppError FileRequired 400)
      | Some f \<Rightarrow>
          Inr (newContent\<lparr>fileName := Some (filename f), originalName := Some (originalname f),
                 filePath := Some (path f), fileSize := Some (size_bytes f),
                 mimeType := Some (mimetype f)\<rparr>))"

definition contactCase :: "updateRequest \<Rightarrow> content \<Rightarrow> error + content" where
  "contactCase req newContent =
     (if \<not> truthy (upd_contactName req) \<and> \<not> truthy (upd_phone req) \<and> \<not> truthy (upd_email req)
      then Inl (AppError ContactRequired 400)
      else
        let c1 = (if truthy (upd_contactName req)
                  then newContent\<lparr>contactName := map_option trim (upd_contactName req)\<rparr>
                  else newContent) in
        (case (if truthy (upd_phone req) then validatePhone (trim (orElse (upd_phone req) []))
               else Inr ()) of
           Inl err \<Rightarrow> Inl err
         | Inr _ \<Rightarrow>
             let c2 = (if truthy (upd_phone req)
                       then c1\<lparr>phone := map_option trim (upd_phone req)\<rparr> else c1) in
             (case (if truthy (upd_email req) then validateEmail (trim (orElse (upd_email req) []))
                    else Inr ()) of
                Inl err \<Rightarrow> Inl err
              | Inr _ \<Rightarrow>
                  let c3 = (if truthy (upd_email req)
                            then c2\<lparr>email := map_option trim (upd_email req)\<rparr> else c2) in
                  Inr (if truthy (upd_company req)
                       then c3\<lparr>company := map_option trim (upd_company req)\<rparr> else c3))))"

definition prepareContent ::
  "(string \<Rightarrow> string option) \<Rightarrow> nat \<Rightarrow> updateRequest \<Rightarrow> string \<Rightarrow> error + content" where
  "prepareContent protocol t req contentType =
     (let newContent = (emptyContent (Some (orElse (upd_description req) [])) t)
                         \<lparr>ctype := contentType\<rparr> in
      if contentType = ''text'' then textCase req newContent
      else if contentType = ''link'' then linkCase protocol req newContent
      else if contentType = ''file'' then fileCase req newContent
      else if contentType = ''contact'' then contactCase req newContent
      else if contentType = ''empty''
      then Inr (newContent\<lparr>description := Some ''Content o'chirildi''\<rparr>)
      else Inl (AppError WrongContentType 400))"

text \<open>
  \<^verbatim>\<open>updateQRContent\<close>, the handler of \<^verbatim>\<open>PUT /api/qr/:id/content\<close>, in the order of its
  statements: the lookup, the two validations of the content type, \<^verbatim>\<open>addToHistory\<close>, the
  deletion of the old file, the switch, the assignment and the save.
\<close>

definition updateQRContent ::
  "(string \<Rightarrow> string option) \<Rightarrow> env \<Rightarrow> updateRequest \<Rightarrow> state \<Rightarrow> state \<times> response" where
  "updateQRContent protocol e req s =
     (case findOne s (upd_id req) of
        None \<Rightarrow> (s, Failed (AppError QRNotFound 404))
      | Some q0 \<Rightarrow>
          (case validateRequiredFields [(''contentType'', upd_contentType req)] of
             Inl err \<Rightarrow> (s, Failed err)
           | Inr _ \<Rightarrow>
               let contentType = orElse (upd_contentType req) [] in
               (case validateContentType contentType of
                  Inl err \<Rightarrow> (s, Failed err)
                | Inr _ \<Rightarrow>
                    let q1 = addToHistory (now e) (currentContent q0) q0;
                        s1 = (if ctype (currentContent q1) = ''file'' \<and>
                                 truthy (filePath (currentContent q1)) \<and> upd_file req \<noteq> None
                              then deleteFile (filePath (currentContent q1)) s else s)
                    in
                    (case prepareContent protocol (now e) req contentType of
                       Inl err \<Rightarrow> (s1, Failed err)
                     | Inr newContent \<Rightarrow>
                         (case save Whole (saveOk e) (q1\<lparr>currentContent := newContent\<rparr>) s1 of
                            Inl err \<Rightarrow> (s1, Failed err)
                          | Inr (q, s2) \<Rightarrow> (s2, JsonQR 200 q))))))"

subsection \<open>The QR router\<close>

text \<open>
  \<^verbatim>\<open>routes/qr.js\<close> ends with \<^verbatim>\<open>router.use(handleUploadError)\<close>, so an error a QR handler
  hands to \<^verbatim>\<open>next\<close> reaches \<^verbatim>\<open>handleUploadError\<close> before any other error middleware. For an
  error that is not multer's it answers status 400 with the error's message.
\<close>

definition handleUploadError :: "error \<Rightarrow> response" where
  "handleUploadError err = ErrorJson 400 err"

definition qrRouter :: "state \<times> response \<Rightarrow> state \<times> response" where
  "qrRouter r = (case snd r of Failed err \<Rightarrow> (fst r, handleUploadError err) | _ \<Rightarrow> r)"

text \<open>\<^verbatim>\<open>POST /api/qr/create\<close> as the client sees it.\<close>

definition postCreate :: "createEnv \<Rightarrow> createRequest \<Rightarrow> state \<Rightarrow> state \<times> response" where
  "postCreate e req s = qrRouter (createQR e req s)"

section \<open>Runs and sample inputs\<close>

text \<open>
  A request to one of the handlers, with the environment it meets; a run is a finite
  sequence of requests, each acting on the state the previous one left.
\<close>

datatype request =
    Create createEnv createRequest
  | Update env updateRequest
  | Scan env scanRequest
  | QuickRedirect env scanRequest
  | Preview string
  | ScanInfo string

fun step :: "(string \<Rightarrow> string option) \<Rightarrow> (string \<Rightarrow> string option) \<Rightarrow> request \<Rightarrow> state \<Rightarrow> state" where
  "step protocol hostname (Create e r) s = fst (createQR e r s)"
| "step protocol hostname (Update e r) s = fst (updateQRContent protocol e r s)"
| "step protocol hostname (Scan e r) s = fst (scanQR e r s)"
| "step protocol hostname (QuickRedirect e r) s = fst (quickRedirect e r s)"
| "step protocol hostname (Preview i) s = fst (previewQR i s)"
| "step protocol hostname (ScanInfo i) s = fst (getQRScanInfo hostname i s)"

fun run :: "(string \<Rightarrow> string option) \<Rightarrow> (string \<Rightarrow> string option) \<Rightarrow> request list \<Rightarrow> state \<Rightarrow> state" where
  "run protocol hostname [] s = s"
| "run protocol hostname (r # rs) s = run protocol hostname rs (step protocol hostname r s)"

text \<open>
  Sample inputs: a QR ``Menu'' with id \<open>q1\<close>, its content and password given; the state
  that holds it together with its image and the blob \<open>uploads/b1.pdf\<close>; requests on it.
\<close>

definition sampleFile :: content where
  "sampleFile =
     (emptyContent (Some []) 0)
       \<lparr>ctype := ''file'', fileName := Some ''b1.pdf'', originalName := Some ''menu.pdf'',
        filePath := Some ''uploads/b1.pdf'', fileSize := Some 10,
        mimeType := Some ''application/pdf''\<rparr>"

definition sampleLink :: content where
  "sampleLink = (emptyContent (Some []) 0)\<lparr>ctype := ''link'', url := Some ''https://example.org''\<rparr>"

definition sampleQR :: "content \<Rightarrow> string option \<Rightarrow> qr" where
  "sampleQR c pw =
     (newDynamicQR ''q1'' ''Menu'' (qrPathOf ''q1'') c 0)
       \<lparr>qsettings := \<lparr>allowTracking = True, customDomain = None, password = pw\<rparr>\<rparr>"

definition sampleState :: "qr \<Rightarrow> state" where
  "sampleState q =
     \<lparr>db = [''q1'' \<mapsto> q], files = {''uploads/b1.pdf'', qrPathOf ''q1''}, analyticsLog = []\<rparr>"

definition sampleScan :: "string option \<Rightarrow> scanRequest" where
  "sampleScan pw =
     \<lparr>params_id = ''q1'', query_password = pw, query_format = None, req_ip = ''10.0.0.1'',
      userAgent = Some ''Mozilla/5.0 (iPhone)'', referer = None, cfCountry = None\<rparr>"

definition sampleUpdate :: "string \<Rightarrow> string option \<Rightarrow> upload option \<Rightarrow> updateRequest" where
  "sampleUpdate ct txt f =
     \<lparr>upd_id = ''q1'', upd_contentType = Some ct, upd_text = txt, upd_url = None,
      upd_linkTitle = None, upd_contactName = None, upd_phone = None, upd_email = None,
      upd_company = None, upd_description = None, upd_file = f\<rparr>"

definition sampleUpload :: upload where
  "sampleUpload =
     \<lparr>filename = ''b2.pdf'', originalname = ''menu2.pdf'', path = ''uploads/b2.pdf'',
      size_bytes = 20, mimetype = ''application/pdf''\<rparr>"

definition sampleEnv :: "bool \<Rightarrow> env" where
  "sampleEnv ok = \<lparr>now = 7, saveOk = ok\<rparr>"

definition sampleFull :: qr where
  "sampleFull =
     (sampleQR sampleLink None)
       \<lparr>contentHistory :=
          replicate 50 \<lparr>h_type = ''empty'', h_content = emptyContent None 0, changedAt = 0\<rparr>\<rparr>"


definition sampleCreate :: createRequest where
  "sampleCreate = \<lparr>body_title = Some ''Menu'', body_description = None\<rparr>"

definition sampleCreateEnv :: "string \<Rightarrow> toFile \<Rightarrow> bool \<Rightarrow> createEnv" where
  "sampleCreateEnv r w ok =
     \<lparr>now = 7, saveOk = ok, draws = (\<lambda>k. (''q'', r)), toFileResult = w\<rparr>"

text \<open>The keys of the \<^verbatim>\<open>qr\<close> object of a JSON answer, in their order.\<close>

fun fieldsOf :: "json \<Rightarrow> (string \<times> json) list" where
  "fieldsOf (JObj fs) = fs"
| "fieldsOf _ = []"

definition infoKeys :: "response \<Rightarrow> string list" where
  "infoKeys r =
     (case r of
        Json n j \<Rightarrow> (case map_of (fieldsOf j) ''qr'' of
                       None \<Rightarrow> [] | Some ob \<Rightarrow> map fst (fieldsOf ob))
      | _ \<Rightarrow> [])"

text \<open>The sample state once multer has stored the upload \<open>uploads/b2.pdf\<close> of a request.\<close>

definition uploadedState :: "qr \<Rightarrow> state" where
  "uploadedState q = (sampleState q)\<lparr>files := insert ''uploads/b2.pdf'' (files (sampleState q))\<rparr>"

definition sampleSecret :: content where
  "sampleSecret =
     sampleFile\<lparr>originalName := Some ''payroll.pdf'', fileSize := Some 99,
        description := Some ''internal''\<rparr>"

section \<open>Verification\<close>

subsection \<open>Auxiliary facts\<close>

lemma save_Inr:
  assumes "save sel ok q s = Inr (q', s')"
  shows "q' = q" "s' = s\<lparr>db := (db s)(qr_id q \<mapsto> q)\<rparr>" "ok"
    "isSelected sel ''contentHistory''" "length (contentHistory q) \<le> 50"
  using assms
  by (auto simp: save_def preSave_def historyValidator_def split: if_splits)

lemma save_Whole:
  "save Whole ok q s =
     (if 50 < length (contentHistory q) then Inl ValidationError
      else if ok then Inr (q, s\<lparr>db := (db s)(qr_id q \<mapsto> q)\<rparr>) else Inl StoreError)"
  by (simp add: save_def preSave_def historyValidator_def)

lemma save_unselected: "\<not> isSelected sel ''contentHistory'' \<Longrightarrow> save sel ok q s = Inl TypeError"
  by (simp add: save_def preSave_def)

lemma deleteFile_db: "db (deleteFile p s) = db s"
  by (simp add: deleteFile_def split: option.splits)

lemma bounded_upd:
  assumes "\<forall>q\<in>ran m. length (contentHistory q) \<le> 50" "length (contentHistory q0) \<le> 50"
  shows "\<forall>q\<in>ran (m(k \<mapsto> q0)). length (contentHistory q) \<le> 50"
proof
  fix q assume "q \<in> ran (m(k \<mapsto> q0))"
  then obtain a where a: "(m(k \<mapsto> q0)) a = Some q" by (auto simp: ran_def)
  show "length (contentHistory q) \<le> 50"
  proof (cases "a = k")
    case True
    with a have "q = q0" by simp
    then show ?thesis using assms(2) by simp
  next
    case False
    with a have "m a = Some q" by simp
    then have "q \<in> ran m" by (auto simp: ran_def)
    with assms show ?thesis by blast
  qed
qed

lemma recordScanAnalytics_fields:
  "db (recordScanAnalytics sel e q req s) = db s"
  "files (recordScanAnalytics sel e q req s) = files s"
  by (simp_all add: recordScanAnalytics_def)

lemma incrementScan_ok:
  "length (contentHistory q) \<le> 50 \<Longrightarrow>
   incrementScan Whole True t q s =
     Inr (q\<lparr>scanCount := scanCount q + 1, lastScanned := Some t\<rparr>,
          s\<lparr>db := (db s)(qr_id q \<mapsto> q\<lparr>scanCount := scanCount q + 1, lastScanned := Some t\<rparr>)\<rparr>)"
  by (simp add: incrementScan_def save_Whole)

lemma loop_inv:
  "uniqueIdLoop s d q u a = (q', u', a') \<Longrightarrow> a \<le> 5 \<Longrightarrow>
   a \<le> a' \<and> a' \<le> 5 \<and>
   (u \<longrightarrow> (q', u', a') = (q, u, a)) \<and>
   (\<not> u \<and> u' \<longrightarrow> a < a' \<and> q' = Some (generateUniqueId (d (a' - 1))) \<and>
       findOne s (generateUniqueId (d (a' - 1))) = None \<and>
       (\<forall>j. a \<le> j \<and> j < a' - 1 \<longrightarrow> findOne s (generateUniqueId (d j)) \<noteq> None)) \<and>
   (\<not> u \<and> \<not> u' \<longrightarrow> a' = 5 \<and> (\<forall>j. a \<le> j \<and> j < 5 \<longrightarrow> findOne s (generateUniqueId (d j)) \<noteq> None))"
proof (induction s d q u a arbitrary: q' u' a' rule: uniqueIdLoop.induct)
  case (1 s d qrId isUnique attempts)
  show ?case
  proof (cases "\<not> isUnique \<and> attempts < 5")
    case False
    with "1.prems" show ?thesis by auto
  next
    case True
    let ?c = "generateUniqueId (d attempts)"
    from True "1.prems" have rec: "uniqueIdLoop s d (Some ?c) (findOne s ?c = None) (attempts + 1) = (q', u', a')"
      by (simp add: Let_def)
    from True have le: "attempts + 1 \<le> 5" by simp
    note IH = "1.IH" [OF True refl refl rec le]
    show ?thesis
    proof (cases "findOne s ?c = None")
      case T: True
      with IH True show ?thesis by auto
    next
      case F: False
      have "\<forall>j. attempts \<le> j \<and> j < n \<longrightarrow> findOne s (generateUniqueId (d j)) \<noteq> None"
        if "\<forall>j. attempts + 1 \<le> j \<and> j < n \<longrightarrow> findOne s (generateUniqueId (d j)) \<noteq> None" for n
      proof (intro allI impI)
        fix j assume j: "attempts \<le> j \<and> j < n"
        show "findOne s (generateUniqueId (d j)) \<noteq> None"
        proof (cases "j = attempts")
          case True then show ?thesis using F by simp
        next
          case False then show ?thesis using j that by auto
        qed
      qed
      with IH True F show ?thesis by (simp del: uniqueIdLoop.simps) blast
    qed
  qed
qed

lemma deleteQRCode_fields:
  "db (deleteQRCode i s) = db s" "files (deleteQRCode i s) = files s - {qrPathOf i}"
  "analyticsLog (deleteQRCode i s) = analyticsLog s"
  by (auto simp: deleteQRCode_def)

lemma generateQRCode_fields:
  "db (fst (generateQRCode w i s)) = db s"
  "files (fst (generateQRCode w i s)) \<subseteq> insert (qrPathOf i) (files s)"
  "generateQRCode Written i s = (s\<lparr>files := insert (qrPathOf i) (files s)\<rparr>, Inr (qrPathOf i))"
  "\<exists>s1. generateQRCode (Threw b) i s = (s1, Inl QRCodeError)"
  by (auto simp: generateQRCode_def split: toFile.splits)

lemma createQR_early:
  "\<not> (truthy (body_title req) \<and> length (orElse (body_title req) []) \<le> 200 \<and>
       (\<exists>i a. uniqueIdLoop s (draws e) None False 0 = (Some i, True, a))) \<Longrightarrow>
   \<exists>err. createQR e req s = (s, Failed err)"
  by (auto simp: createQR_def validateRequiredFields_def Let_def
           simp del: uniqueIdLoop.simps split: prod.splits option.splits bool.splits)

lemma createQR_try:
  assumes "truthy (body_title req)" "length (orElse (body_title req) []) \<le> 200"
    and "uniqueIdLoop s (draws e) None False 0 = (Some i, True, a)"
  shows "createQR e req s =
     (case generateQRCode (toFileResult e) i s of
        (s1, Inl err) \<Rightarrow> (deleteQRCode i s1, Failed err)
      | (s1, Inr qrPath) \<Rightarrow>
          (case save Whole (saveOk e)
                  (newDynamicQR i (trim (orElse (body_title req) [])) qrPath
                     (emptyContent (Some (orElse (body_description req) ''Content hali qo'shilmagan''))
                        (now e)) (now e)) s1 of
             Inl err \<Rightarrow> (deleteQRCode i s1, Failed err)
           | Inr (newQR, s2) \<Rightarrow> (s2, JsonQR 201 newQR)))"
  using assms
  by (simp add: createQR_def validateRequiredFields_def Let_def del: uniqueIdLoop.simps)

lemma save_db:
  "save sel ok q s = Inr (q', s') \<Longrightarrow>
   \<exists>k q0. db s' = (db s)(k \<mapsto> q0) \<and> length (contentHistory q0) \<le> 50"
  using save_Inr [of sel ok q s q' s'] by auto

lemma updateQRContent_db:
  "db (fst (updateQRContent p e r s)) = db s \<or>
   (\<exists>k q0. db (fst (updateQRContent p e r s)) = (db s)(k \<mapsto> q0) \<and>
           length (contentHistory q0) \<le> 50)"
proof (cases "\<exists>s' q. updateQRContent p e r s = (s', JsonQR 200 q)")
  case True
  then obtain s' q where u: "updateQRContent p e r s = (s', JsonQR 200 q)" by blast
  then obtain q1 s1 where "save Whole (saveOk e) q1 s1 = Inr (q, s')" "db s1 = db s"
    by (auto simp: updateQRContent_def Let_def deleteFile_db
             split: option.splits sum.splits if_splits)
  then show ?thesis using save_db [of Whole "saveOk e" q1 s1 q s'] u by auto
next
  case False
  then have "db (fst (updateQRContent p e r s)) = db s"
    by (auto simp: updateQRContent_def Let_def deleteFile_db
             split: option.splits sum.splits if_splits)
  then show ?thesis ..
qed

lemma incrementScan_db:
  "incrementScan sel ok t q s = Inr (q', s') \<Longrightarrow>
   \<exists>k q0. db s' = (db s)(k \<mapsto> q0) \<and> length (contentHistory q0) \<le> 50"
  unfolding incrementScan_def by (rule save_db)

lemma scanQR_db:
  "db (fst (scanQR e r s)) = db s \<or>
   (\<exists>k q0. db (fst (scanQR e r s)) = (db s)(k \<mapsto> q0) \<and> length (contentHistory q0) \<le> 50)"
proof (cases "findOneActive s (params_id r)")
  case None
  then show ?thesis by (simp add: scanQR_def)
next
  case (Some q0)
  show ?thesis
  proof (cases "incrementScan Whole (saveOk e) (now e) q0 s")
    case (Inl err)
    with Some show ?thesis by (simp add: scanQR_def)
  next
    case (Inr qs)
    obtain q s1 where qs: "qs = (q, s1)" by (cases qs)
    with Inr have "\<exists>k q0. db s1 = (db s)(k \<mapsto> q0) \<and> length (contentHistory q0) \<le> 50"
      using incrementScan_db by blast
    moreover have "db (fst (scanQR e r s)) = db s \<or> db (fst (scanQR e r s)) = db s1"
      using Some Inr qs by (simp add: scanQR_def Let_def recordScanAnalytics_fields)
    ultimately show ?thesis by metis
  qed
qed

lemma quickRedirect_db: "db (fst (quickRedirect e r s)) = db s"
  by (simp add: quickRedirect_def incrementScan_def quickRedirectSelect_def save_unselected
        split: option.splits)

lemma createQR_db:
  "db (fst (createQR e r s)) = db s \<or>
   (\<exists>k q0. db (fst (createQR e r s)) = (db s)(k \<mapsto> q0) \<and> length (contentHistory q0) \<le> 50)"
proof (cases "truthy (body_title r) \<and> length (orElse (body_title r) []) \<le> 200 \<and>
       (\<exists>i a. uniqueIdLoop s (draws e) None False 0 = (Some i, True, a))")
  case False
  then obtain err where "createQR e r s = (s, Failed err)"
    using createQR_early by blast
  then show ?thesis by simp
next
  case True
  then obtain i a where "truthy (body_title r)" "length (orElse (body_title r) []) \<le> 200"
    "uniqueIdLoop s (draws e) None False 0 = (Some i, True, a)" by blast
  note c = createQR_try [OF this]
  show ?thesis
  proof (cases "toFileResult e")
    case (Threw b)
    then have "db (fst (createQR e r s)) = db s"
      unfolding c by (simp add: generateQRCode_def deleteQRCode_fields)
    then show ?thesis ..
  next
    case Written
    let ?s1 = "s\<lparr>files := insert (qrPathOf i) (files s)\<rparr>"
    let ?q = "newDynamicQR i (trim (orElse (body_title r) [])) (qrPathOf i)
                (emptyContent (Some (orElse (body_description r) ''Content hali qo'shilmagan''))
                   (now e)) (now e)"
    show ?thesis
    proof (cases "save Whole (saveOk e) ?q ?s1")
      case (Inl err)
      with Written have "db (fst (createQR e r s)) = db s"
        unfolding c by (simp add: generateQRCode_def deleteQRCode_fields)
      then show ?thesis ..
    next
      case (Inr qs)
      obtain q' s2 where qs: "qs = (q', s2)" by (cases qs)
      with Inr Written have "db (fst (createQR e r s)) = db s2"
        unfolding c by (simp add: generateQRCode_def)
      moreover from save_db [of Whole "saveOk e" ?q ?s1 q' s2] Inr qs
      have "\<exists>k q0. db s2 = (db s)(k \<mapsto> q0) \<and> length (contentHistory q0) \<le> 50"
        by simp
      ultimately show ?thesis by simp
    qed
  qed
qed

lemma step_db:
  "db (step p h r s) = db s \<or>
   (\<exists>k q0. db (step p h r s) = (db s)(k \<mapsto> q0) \<and> length (contentHistory q0) \<le> 50)"
proof (cases r)
  case (Create e c) then show ?thesis using createQR_db by simp
next
  case (Update e u) then show ?thesis using updateQRContent_db by simp
next
  case (Scan e c) then show ?thesis using scanQR_db by simp
next
  case (QuickRedirect e c) then show ?thesis using quickRedirect_db by simp
next
  case (Preview i) then show ?thesis by (simp add: previewQR_def split: option.splits sum.splits)
next
  case (ScanInfo i) then show ?thesis by (simp add: getQRScanInfo_def split: option.splits sum.splits)
qed

lemma step_bounded:
  assumes "\<forall>q\<in>ran (db s). length (contentHistory q) \<le> 50"
  shows "\<forall>q\<in>ran (db (step p h r s)). length (contentHistory q) \<le> 50"
  using step_db [of p h r s] assms bounded_upd by metis

lemma run_bounded:
  "\<forall>q\<in>ran (db s). length (contentHistory q) \<le> 50 \<Longrightarrow>
   \<forall>q\<in>ran (db (run p h rs s)). length (contentHistory q) \<le> 50"
proof (induction rs arbitrary: s)
  case Nil
  then show ?case by simp
next
  case (Cons r rs)
  have "\<forall>q\<in>ran (db (step p h r s)). length (contentHistory q) \<le> 50"
    using Cons.prems by (rule step_bounded)
  then show ?case using Cons.IH by simp
qed

lemma update_success:
  assumes "updateQRContent p e r s = (s', JsonQR 200 q)"
  shows "\<exists>q0 c. findOne s (upd_id r) = Some q0 \<and>
           q = addToHistory (now e) (currentContent q0) q0\<lparr>currentContent := c\<rparr> \<and>
           db s' = (db s)(qr_id q0 \<mapsto> q) \<and> length (contentHistory q0) < 50"
  using assms
  by (auto simp: updateQRContent_def Let_def deleteFile_db save_Whole addToHistory_def
           split: option.splits sum.splits if_splits)







subsection \<open>Replacing an uploaded file\<close>

text \<open>
  C1. The record \<open>q1\<close> holds the file \<open>uploads/b1.pdf\<close>; an update uploads
  \<open>uploads/b2.pdf\<close> and the store rejects the save. \<^verbatim>\<open>updateQRContent\<close> answers the store's
  error, the stored record still points at \<open>uploads/b1.pdf\<close>, and that file is gone from
  the disk: \<^verbatim>\<open>deleteFile\<close> ran before the save.
\<close>

theorem old_blob_deleted_before_save:
  "snd (updateQRContent Map.empty (sampleEnv False) (sampleUpdate ''file'' None (Some sampleUpload))
          (uploadedState (sampleQR sampleFile None))) = Failed StoreError \<and>
   ''uploads/b1.pdf'' \<in> files (uploadedState (sampleQR sampleFile None)) \<and>
   ''uploads/b1.pdf'' \<notin> files (fst (updateQRContent Map.empty (sampleEnv False)
          (sampleUpdate ''file'' None (Some sampleUpload)) (uploadedState (sampleQR sampleFile None)))) \<and>
   db (fst (updateQRContent Map.empty (sampleEnv False)
          (sampleUpdate ''file'' None (Some sampleUpload)) (uploadedState (sampleQR sampleFile None)))) ''q1'' =
     Some (sampleQR sampleFile None) \<and>
   filePath (currentContent (sampleQR sampleFile None)) = Some ''uploads/b1.pdf''"
  by (simp add: updateQRContent_def uploadedState_def sampleState_def sampleUpdate_def sampleEnv_def
        sampleQR_def sampleFile_def sampleUpload_def newDynamicQR_def emptyContent_def
        findOne_def validateRequiredFields_def validateContentType_def orElse_def Let_def
        addToHistory_def deleteFile_def prepareContent_def fileCase_def save_Whole)

subsection \<open>The password gate\<close>



subsection \<open>The history bound\<close>

lemma sample_text_update:
  "updateQRContent Map.empty (sampleEnv True) (sampleUpdate ''text'' (Some ''hello'') None)
     (sampleState sampleFull) = (sampleState sampleFull, Failed ValidationError)"
  by (simp add: updateQRContent_def sampleState_def sampleFull_def sampleQR_def sampleUpdate_def
        sampleEnv_def findOne_def newDynamicQR_def validateRequiredFields_def
        validateContentType_def orElse_def Let_def addToHistory_def sampleLink_def
        emptyContent_def prepareContent_def textCase_def trim_def isSpace_def save_Whole)

text \<open>
  C3. The bound holds: whatever requests are made and whatever they meet, a collection
  whose histories have at most 50 entries stays so. But nothing is ever evicted: a save
  that is accepted stores the history it was given, of at most 50 entries, because the
  schema's validator refuses a longer one before the \<^verbatim>\<open>pre('save')\<close> hook can cut it. So
  once a record's history holds 50 entries every content update of it is refused and the
  collection keeps the record as it was; an update whose fields are valid is refused with
  the validation error. Below 50 entries such an update, when the store accepts it, appends
  the superseded content to the history.
\<close>

theorem history_never_evicted:
  "((\<forall>q\<in>ran (db s). length (contentHistory q) \<le> 50) \<longrightarrow>
      (\<forall>q\<in>ran (db (run p h rs s)). length (contentHistory q) \<le> 50)) \<and>
   (\<forall>sel ok q s0 q' s'. save sel ok q s0 = Inr (q', s') \<longrightarrow>
      contentHistory q' = contentHistory q \<and> length (contentHistory q) \<le> 50) \<and>
   (\<forall>(e :: env) (r :: updateRequest) q0.
      findOne s (upd_id r) = Some q0 \<and> 50 \<le> length (contentHistory q0) \<longrightarrow>
      db (fst (updateQRContent p e r s)) = db s \<and>
      (\<exists>err. snd (updateQRContent p e r s) = Failed err)) \<and>
   (\<forall>(e :: env) (r :: updateRequest) q0 ct c.
      findOne s (upd_id r) = Some q0 \<and> 50 \<le> length (contentHistory q0) \<and>
      upd_contentType r = Some ct \<and> prepareContent p (now e) r ct = Inr c \<longrightarrow>
      snd (updateQRContent p e r s) = Failed ValidationError) \<and>
   (\<forall>(e :: env) (r :: updateRequest) q0 ct c.
      findOne s (upd_id r) = Some q0 \<and> length (contentHistory q0) < 50 \<and> saveOk e \<and>
      upd_contentType r = Some ct \<and> prepareContent p (now e) r ct = Inr c \<longrightarrow>
      (\<exists>s' q. updateQRContent p e r s = (s', JsonQR 200 q) \<and> db s' (qr_id q0) = Some q \<and>
         currentContent q = c \<and>
         contentHistory q =
           contentHistory q0 @
             [\<lparr>h_type = ctype (currentContent q0), h_content = currentContent q0,
               changedAt = now e\<rparr>]))"
proof (intro conjI allI impI)
  assume "\<forall>q\<in>ran (db s). length (contentHistory q) \<le> 50"
  then show "\<forall>q\<in>ran (db (run p h rs s)). length (contentHistory q) \<le> 50"
    by (rule run_bounded)
next
  fix sel ok q s0 q' s'
  assume "save sel ok q s0 = Inr (q', s')"
  from save_Inr(1,5) [OF this]
  show "contentHistory q' = contentHistory q" "length (contentHistory q) \<le> 50"
    by simp_all
next
  fix e :: env and r :: updateRequest and q0
  assume a: "findOne s (upd_id r) = Some q0 \<and> 50 \<le> length (contentHistory q0)"
  have n: "\<not> (\<exists>s' q. updateQRContent p e r s = (s', JsonQR 200 q))"
  proof
    assume "\<exists>s' q. updateQRContent p e r s = (s', JsonQR 200 q)"
    then obtain s' q where "updateQRContent p e r s = (s', JsonQR 200 q)" by blast
    from update_success [OF this] a show False by auto
  qed
  from a n show "db (fst (updateQRContent p e r s)) = db s"
    by (auto simp: updateQRContent_def Let_def deleteFile_db
             split: option.splits sum.splits if_splits)
  from a n show "\<exists>err. snd (updateQRContent p e r s) = Failed err"
    by (auto simp: updateQRContent_def Let_def split: option.splits sum.splits if_splits)
next
  fix e :: env and r :: updateRequest and q0 ct c
  assume "findOne s (upd_id r) = Some q0 \<and> 50 \<le> length (contentHistory q0) \<and>
      upd_contentType r = Some ct \<and> prepareContent p (now e) r ct = Inr c"
  then show "snd (updateQRContent p e r s) = Failed ValidationError"
    by (cases "ct = []")
       (auto simp: updateQRContent_def Let_def validateRequiredFields_def orElse_def
          validateContentType_def prepareContent_def save_Whole addToHistory_def
          split: option.splits sum.splits if_splits)
next
  fix e :: env and r :: updateRequest and q0 ct c
  assume "findOne s (upd_id r) = Some q0 \<and> length (contentHistory q0) < 50 \<and> saveOk e \<and>
      upd_contentType r = Some ct \<and> prepareContent p (now e) r ct = Inr c"
  then show "\<exists>s' q. updateQRContent p e r s = (s', JsonQR 200 q) \<and> db s' (qr_id q0) = Some q \<and>
         currentContent q = c \<and>
         contentHistory q =
           contentHistory q0 @
             [\<lparr>h_type = ctype (currentContent q0), h_content = currentContent q0,
               changedAt = now e\<rparr>]"
    by (cases "ct = []")
       (auto simp: updateQRContent_def Let_def validateRequiredFields_def orElse_def
          validateContentType_def prepareContent_def save_Whole addToHistory_def
          split: option.splits sum.splits if_splits)
qed

theorem history_never_evicted_witness:
  "snd (updateQRContent Map.empty (sampleEnv True) (sampleUpdate ''text'' (Some ''hello'') None)
          (sampleState sampleFull)) = Failed ValidationError \<and>
   db (fst (updateQRContent Map.empty (sampleEnv True)
              (sampleUpdate ''text'' (Some ''hello'') None) (sampleState sampleFull))) =
     db (sampleState sampleFull) \<and>
   length (contentHistory sampleFull) = 50"
proof -
  let ?s = "sampleState sampleFull"
  let ?r = "sampleUpdate ''text'' (Some ''hello'') None"
  have f: "findOne ?s (upd_id ?r) = Some sampleFull \<and> 50 \<le> length (contentHistory sampleFull)"
    by (simp add: findOne_def sampleState_def sampleUpdate_def sampleFull_def)
  have c: "upd_contentType ?r = Some ''text''"
    by (simp add: sampleUpdate_def)
  have "\<exists>c. prepareContent Map.empty (now (sampleEnv True)) ?r ''text'' = Inr c"
    by (simp add: prepareContent_def textCase_def sampleUpdate_def trim_def isSpace_def)
  then obtain c0 where pc: "prepareContent Map.empty (now (sampleEnv True)) ?r ''text'' = Inr c0"
    by blast
  note th = history_never_evicted [of ?s Map.empty Map.empty "[]"]
  from th have a: "\<forall>(e :: env) (r :: updateRequest) q0.
      findOne ?s (upd_id r) = Some q0 \<and> 50 \<le> length (contentHistory q0) \<longrightarrow>
      db (fst (updateQRContent Map.empty e r ?s)) = db ?s \<and>
      (\<exists>err. snd (updateQRContent Map.empty e r ?s) = Failed err)"
    by blast
  from th have b: "\<forall>(e :: env) (r :: updateRequest) q0 ct c. findOne ?s (upd_id r) = Some q0 \<and>
      50 \<le> length (contentHistory q0) \<and>
      upd_contentType r = Some ct \<and> prepareContent Map.empty (now e) r ct = Inr c \<longrightarrow>
      snd (updateQRContent Map.empty e r ?s) = Failed ValidationError"
    by blast
  from a f have "db (fst (updateQRContent Map.empty (sampleEnv True) ?r ?s)) = db ?s" by blast
  moreover from b f c pc
  have "snd (updateQRContent Map.empty (sampleEnv True) ?r ?s) = Failed ValidationError" by blast
  moreover have "length (contentHistory sampleFull) = 50" by (simp add: sampleFull_def)
  ultimately show ?thesis by blast
qed

subsection \<open>Preview\<close>

text \<open>
  C4. \<^verbatim>\<open>previewQR\<close> returns the state it was given, so any number of previews leaves every
  record's \<open>scanCount\<close>, \<open>lastScanned\<close> and \<open>contentHistory\<close> as they were, and a second
  preview answers what the first did.
\<close>

theorem preview_is_pure_read:
  "((\<lambda>s. fst (previewQR i s)) ^^ n) s = s \<and> previewQR i (fst (previewQR i s)) = previewQR i s"
proof -
  have one: "fst (previewQR i s) = s" for s
    by (simp add: previewQR_def split: option.splits sum.splits)
  have "((\<lambda>s. fst (previewQR i s)) ^^ n) s = s"
    by (induction n) (simp_all add: one)
  then show ?thesis by (simp add: one)
qed

theorem preview_is_pure_read_witness:
  "((\<lambda>s. fst (previewQR ''q1'' s)) ^^ 2) (sampleState (sampleQR sampleLink None)) =
     sampleState (sampleQR sampleLink None) \<and>
   previewQR ''q1'' (fst (previewQR ''q1'' (sampleState (sampleQR sampleLink None)))) =
     previewQR ''q1'' (sampleState (sampleQR sampleLink None))"
  by (rule preview_is_pure_read)

subsection \<open>The text case of an update\<close>




subsection \<open>Allocating an id\<close>

text \<open>
  C6. The allocation loop makes at most 5 attempts, each drawing a candidate (clock reading
  followed by random suffix) and looking it up in the collection. It stops at the first
  candidate the collection does not hold, which is the id it returns; when all five are
  held, \<^verbatim>\<open>createQR\<close> throws its error with status code 500 and changes nothing. The client
  of \<^verbatim>\<open>POST /api/qr/create\<close> does not see a 500: the router's \<^verbatim>\<open>handleUploadError\<close> answers
  that error with status 400.
\<close>

theorem id_allocation:
  "(\<exists>qrId isUnique attempts.
      uniqueIdLoop s (draws e) None False 0 = (qrId, isUnique, attempts) \<and> attempts \<le> 5 \<and>
      (isUnique \<longrightarrow>
         1 \<le> attempts \<and> qrId = Some (generateUniqueId (draws e (attempts - 1))) \<and>
         findOne s (generateUniqueId (draws e (attempts - 1))) = None \<and>
         (\<forall>j < attempts - 1. findOne s (generateUniqueId (draws e j)) \<noteq> None)) \<and>
      (\<not> isUnique \<longrightarrow>
         attempts = 5 \<and> (\<forall>j < 5. findOne s (generateUniqueId (draws e j)) \<noteq> None) \<and>
         (truthy (body_title req) \<and> length (orElse (body_title req) []) \<le> 200 \<longrightarrow>
            createQR e req s = (s, Failed (AppError UniqueIdFailed 500)) \<and>
            postCreate e req s = (s, ErrorJson 400 (AppError UniqueIdFailed 500)))))"
proof -
  obtain qrId isUnique attempts
    where l: "uniqueIdLoop s (draws e) None False 0 = (qrId, isUnique, attempts)"
    by (metis prod_cases3)
  note inv = loop_inv [OF l]
  have c: "createQR e req s = (s, Failed (AppError UniqueIdFailed 500))"
    if "\<not> isUnique" "truthy (body_title req)" "length (orElse (body_title req) []) \<le> 200"
    using that l
    by (simp add: createQR_def validateRequiredFields_def Let_def del: uniqueIdLoop.simps
          split: option.splits bool.splits)
  have r: "postCreate e req s = (s, ErrorJson 400 (AppError UniqueIdFailed 500))"
    if "\<not> isUnique" "truthy (body_title req)" "length (orElse (body_title req) []) \<le> 200"
    using c [OF that] by (simp add: postCreate_def qrRouter_def handleUploadError_def)
  show ?thesis
    apply (rule exI [of _ qrId], rule exI [of _ isUnique], rule exI [of _ attempts])
    using l inv c r by (auto simp del: uniqueIdLoop.simps)
qed

theorem id_allocation_witness:
  "createQR (sampleCreateEnv ''1'' Written True) sampleCreate (sampleState (sampleQR sampleLink None)) =
     (sampleState (sampleQR sampleLink None), Failed (AppError UniqueIdFailed 500)) \<and>
   postCreate (sampleCreateEnv ''1'' Written True) sampleCreate
     (sampleState (sampleQR sampleLink None)) =
     (sampleState (sampleQR sampleLink None), ErrorJson 400 (AppError UniqueIdFailed 500))"
proof -
  let ?s = "sampleState (sampleQR sampleLink None)"
  let ?e = "sampleCreateEnv ''1'' Written True"
  have taken: "findOne ?s (generateUniqueId (draws ?e k)) \<noteq> None" for k
    by (simp add: findOne_def sampleState_def sampleCreateEnv_def generateUniqueId_def)
  have t: "truthy (body_title sampleCreate) \<and> length (orElse (body_title sampleCreate) []) \<le> 200"
    by (simp add: sampleCreate_def orElse_def)
  obtain qrId isUnique attempts where
    u: "isUnique \<longrightarrow> 1 \<le> attempts \<and> qrId = Some (generateUniqueId (draws ?e (attempts - 1))) \<and>
         findOne ?s (generateUniqueId (draws ?e (attempts - 1))) = None \<and>
         (\<forall>j < attempts - 1. findOne ?s (generateUniqueId (draws ?e j)) \<noteq> None)"
    and n: "\<not> isUnique \<longrightarrow>
         attempts = 5 \<and> (\<forall>j < 5. findOne ?s (generateUniqueId (draws ?e j)) \<noteq> None) \<and>
         (truthy (body_title sampleCreate) \<and> length (orElse (body_title sampleCreate) []) \<le> 200 \<longrightarrow>
            createQR ?e sampleCreate ?s = (?s, Failed (AppError UniqueIdFailed 500)) \<and>
            postCreate ?e sampleCreate ?s =
              (?s, ErrorJson 400 (AppError UniqueIdFailed 500)))"
    using id_allocation [of ?s ?e sampleCreate] by blast
  from u taken have "\<not> isUnique" by blast
  with n t show ?thesis by blast
qed

subsection \<open>Counted scans of a file\<close>

text \<open>
  C7. A counted scan of a record whose content is a file, with its mime type and size
  recorded and its history within the bound of 50 that every stored record keeps: when the file's path exists on disk the answer streams it, with disposition
  \<open>inline\<close> exactly for the mime types starting with \<open>image/\<close>, \<open>text/\<close>, \<open>video/\<close>,
  \<open>audio/\<close> and for \<open>application/pdf\<close>, and \<open>attachment\<close> otherwise; when the path is
  absent, empty or not on disk the answer is the file-missing page, which is not the page
  of a missing record. The scan is counted in both cases.
\<close>

theorem file_serving:
  assumes "db s (params_id req) = Some q" "isActive q"
    and "checkQRPassword q (query_password req)" "saveOk e"
    and "length (contentHistory q) \<le> 50"
    and "ctype (currentContent q) = ''file''"
    and "mimeType (currentContent q) = Some m" "fileSize (currentContent q) = Some n"
  shows "(\<forall>p. filePath (currentContent q) = Some p \<and> p \<noteq> [] \<and> p \<in> files s \<longrightarrow>
            snd (scanQR e req s) =
              Stream m n
                (if startsWith m ''image/'' \<or> m = ''application/pdf'' \<or> startsWith m ''text/'' \<or>
                    startsWith m ''video/'' \<or> startsWith m ''audio/''
                 then ''inline'' else ''attachment'')
                (originalName (currentContent q)) p) \<and>
         (\<not> (\<exists>p. filePath (currentContent q) = Some p \<and> p \<noteq> [] \<and> p \<in> files s) \<longrightarrow>
            snd (scanQR e req s) =
              Html 404 ''Fayl Topilmadi'' (FileMissingPage (title q) (scanCount q + 1)) \<and>
            snd (scanQR e req s) \<noteq> Html 404 ''QR Topilmadi'' (QRNotFoundPage (params_id req))) \<and>
         (\<exists>q'. db (fst (scanQR e req s)) (qr_id q) = Some q' \<and> scanCount q' = scanCount q + 1)"
  using assms
  by (auto simp: scanQR_def findOneActive_def incrementScan_ok Let_def
        handleFileServing_def recordScanAnalytics_fields isViewable_def
        split: option.splits)

theorem file_serving_witness:
  "snd (scanQR (sampleEnv True) (sampleScan None) (sampleState (sampleQR sampleFile None))) =
     Stream ''application/pdf'' 10 ''inline'' (Some ''menu.pdf'') ''uploads/b1.pdf''"
proof -
  let ?q = "sampleQR sampleFile None"
  have "\<forall>p. filePath (currentContent ?q) = Some p \<and> p \<noteq> [] \<and> p \<in> files (sampleState ?q) \<longrightarrow>
          snd (scanQR (sampleEnv True) (sampleScan None) (sampleState ?q)) =
            Stream ''application/pdf'' 10 ''inline'' (originalName (currentContent ?q)) p"
    using file_serving
      [of "sampleState ?q" "sampleScan None" ?q "sampleEnv True" "''application/pdf''" 10]
    by (simp add: sampleState_def sampleScan_def sampleQR_def sampleFile_def sampleEnv_def
          newDynamicQR_def emptyContent_def checkQRPassword_def)
  then show ?thesis
    by (simp add: sampleState_def sampleQR_def sampleFile_def newDynamicQR_def emptyContent_def)
qed

subsection \<open>Creating a QR: the image and the record\<close>

text \<open>
  C8. \<^verbatim>\<open>createQR\<close> answers either 201 or an error. It answers 201 only when the image was
  written and the store accepted the record; the record is then stored under a fresh id
  and its \<open>qrCodePath\<close> is the image on disk. When it answers an error no record is stored,
  no file is left that was not there before, and the image path of the allocated id is
  absent from the disk. With a valid title and an allocated id, a written image and an
  accepted save give 201.
\<close>

theorem creation_binds_image:
  "(\<forall>n q. snd (createQR e req s) = JsonQR n q \<longrightarrow>
      n = 201 \<and> toFileResult e = Written \<and> saveOk e \<and> db s (qr_id q) = None \<and>
      db (fst (createQR e req s)) = (db s)(qr_id q \<mapsto> q) \<and>
      qrCodePath q = qrPathOf (qr_id q) \<and> qrCodePath q \<in> files (fst (createQR e req s))) \<and>
   (\<forall>err. snd (createQR e req s) = Failed err \<longrightarrow>
      db (fst (createQR e req s)) = db s \<and> files (fst (createQR e req s)) \<subseteq> files s \<and>
      (\<forall>i a. truthy (body_title req) \<and> length (orElse (body_title req) []) \<le> 200 \<and>
             uniqueIdLoop s (draws e) None False 0 = (Some i, True, a) \<longrightarrow>
             qrPathOf i \<notin> files (fst (createQR e req s)))) \<and>
   ((\<exists>q. snd (createQR e req s) = JsonQR 201 q) \<or> (\<exists>err. snd (createQR e req s) = Failed err)) \<and>
   (truthy (body_title req) \<and> length (orElse (body_title req) []) \<le> 200 \<and>
    (\<exists>i a. uniqueIdLoop s (draws e) None False 0 = (Some i, True, a)) \<and>
    toFileResult e = Written \<and> saveOk e \<longrightarrow>
      (\<exists>q. snd (createQR e req s) = JsonQR 201 q))"
proof (cases "truthy (body_title req) \<and> length (orElse (body_title req) []) \<le> 200 \<and>
       (\<exists>i a. uniqueIdLoop s (draws e) None False 0 = (Some i, True, a))")
  case False
  then obtain err where "createQR e req s = (s, Failed err)"
    using createQR_early by blast
  with False show ?thesis by (auto simp del: uniqueIdLoop.simps)
next
  case True
  then obtain i a where t: "truthy (body_title req)" "length (orElse (body_title req) []) \<le> 200"
    and l: "uniqueIdLoop s (draws e) None False 0 = (Some i, True, a)"
    by blast
  have fresh: "db s i = None"
    using loop_inv [OF l] by (auto simp: findOne_def)
  note c = createQR_try [OF t l]
  show ?thesis
  proof (cases "toFileResult e")
    case Written
    show ?thesis
    proof (cases "saveOk e")
      case True
      with Written c fresh l t show ?thesis
        by (simp add: generateQRCode_fields save_Whole newDynamicQR_def
              del: uniqueIdLoop.simps)
    next
      case False
      with Written c fresh l t show ?thesis
        by (auto simp: generateQRCode_fields save_Whole newDynamicQR_def deleteQRCode_fields
              simp del: uniqueIdLoop.simps)
    qed
  next
    case (Threw b)
    obtain s1 where g: "generateQRCode (Threw b) i s = (s1, Inl QRCodeError)"
      using generateQRCode_fields(4) by blast
    have "db s1 = db s" "files s1 \<subseteq> insert (qrPathOf i) (files s)"
      using generateQRCode_fields(1,2) [of "Threw b" i s] g by simp_all
    with Threw c g l t show ?thesis
      by (auto simp: deleteQRCode_fields simp del: uniqueIdLoop.simps)
  qed
qed

lemma sample_loop:
  "uniqueIdLoop (sampleState (sampleQR sampleLink None)) (draws (sampleCreateEnv ''2'' w ok)) None False 0 =
     (Some ''q2'', True, 1)"
  by (simp add: findOne_def sampleState_def sampleCreateEnv_def generateUniqueId_def)

theorem creation_binds_image_witness:
  "db (fst (createQR (sampleCreateEnv ''2'' Written False) sampleCreate
              (sampleState (sampleQR sampleLink None)))) =
     db (sampleState (sampleQR sampleLink None)) \<and>
   qrPathOf ''q2'' \<notin> files (fst (createQR (sampleCreateEnv ''2'' Written False) sampleCreate
                                  (sampleState (sampleQR sampleLink None))))"
proof -
  let ?s = "sampleState (sampleQR sampleLink None)"
  let ?e = "sampleCreateEnv ''2'' Written False"
  let ?R = "createQR ?e sampleCreate ?s"
  have ok: "\<not> saveOk ?e" by (simp add: sampleCreateEnv_def)
  have t: "truthy (body_title sampleCreate) \<and> length (orElse (body_title sampleCreate) []) \<le> 200"
    by (simp add: sampleCreate_def orElse_def)
  note th = creation_binds_image [of ?e sampleCreate ?s]
  from th have a: "\<forall>n q. snd ?R = JsonQR n q \<longrightarrow> saveOk ?e" by blast
  from th have b: "(\<exists>q. snd ?R = JsonQR 201 q) \<or> (\<exists>err. snd ?R = Failed err)" by blast
  from a b ok obtain err where f: "snd ?R = Failed err" by blast
  from th have c: "\<forall>err. snd ?R = Failed err \<longrightarrow>
      db (fst ?R) = db ?s \<and> files (fst ?R) \<subseteq> files ?s \<and>
      (\<forall>i a. truthy (body_title sampleCreate) \<and> length (orElse (body_title sampleCreate) []) \<le> 200 \<and>
             uniqueIdLoop ?s (draws ?e) None False 0 = (Some i, True, a) \<longrightarrow>
             qrPathOf i \<notin> files (fst ?R))" by blast
  from c f t sample_loop [of Written False] show ?thesis by blast
qed

subsection \<open>The short redirect\<close>

text \<open>
  C9. \<^verbatim>\<open>quickRedirect\<close> reads neither the record's password nor the request's. For an
  active record whose content is a link it calls \<^verbatim>\<open>incrementScan\<close>, but on a document
  loaded without its history: the save is always rejected, the state stays as it was
  (nothing is counted) and the answer is the error instead of the redirect; when the
  store would have accepted the save the error is the \<^verbatim>\<open>pre('save')\<close> hook's
  \<^verbatim>\<open>TypeError\<close>. For any other content type it redirects to \<open>/scan/<id>\<close> and leaves the
  state as it was.
\<close>

theorem quick_redirect_link_fails:
  assumes "db s (params_id req) = Some q" "isActive q"
  shows "(ctype (currentContent q) = ''link'' \<longrightarrow>
            fst (quickRedirect e req s) = s \<and>
            (\<exists>err. snd (quickRedirect e req s) = Failed err) \<and>
            (saveOk e \<longrightarrow> snd (quickRedirect e req s) = Failed TypeError)) \<and>
         (ctype (currentContent q) \<noteq> ''link'' \<longrightarrow>
            quickRedirect e req s = (s, Redirect (Some (''/scan/'' @ params_id req))))"
  using assms
  by (auto simp: quickRedirect_def findOneActive_def incrementScan_def save_unselected
        quickRedirectSelect_def)

theorem quick_redirect_link_fails_witness:
  "quickRedirect (sampleEnv True) (sampleScan None)
     (sampleState (sampleQR sampleLink (Some ''abcd''))) =
     (sampleState (sampleQR sampleLink (Some ''abcd'')), Failed TypeError)"
proof -
  let ?q = "sampleQR sampleLink (Some ''abcd'')"
  let ?R = "quickRedirect (sampleEnv True) (sampleScan None) (sampleState ?q)"
  have h: "db (sampleState ?q) (params_id (sampleScan None)) = Some ?q" "isActive ?q"
    by (simp_all add: sampleState_def sampleScan_def sampleQR_def newDynamicQR_def)
  have l: "ctype (currentContent ?q) = ''link''" "saveOk (sampleEnv True)"
    by (simp_all add: sampleQR_def sampleLink_def newDynamicQR_def sampleEnv_def)
  from quick_redirect_link_fails [OF h, of "sampleEnv True"] l
  have "fst ?R = sampleState ?q" "snd ?R = Failed TypeError"
    by blast+
  then show ?thesis by (simp add: prod_eq_iff)
qed

subsection \<open>Scan info of a protected record\<close>

text \<open>
  C10, as the claim states it, fails: the answer for a protected record has a seventh key,
  \<open>description\<close>.
\<close>

theorem protected_info_counterexample:
  "set (infoKeys (snd (getQRScanInfo Map.empty ''q1'' (sampleState (sampleQR sampleFile (Some ''abcd'')))))) \<noteq>
     {''id'', ''title'', ''contentType'', ''scanCount'', ''createdDate'', ''isPasswordProtected''} \<and>
   ''description'' \<in> set (infoKeys (snd (getQRScanInfo Map.empty ''q1'' (sampleState (sampleQR sampleFile (Some ''abcd''))))))"
proof -
  have "infoKeys (snd (getQRScanInfo Map.empty ''q1'' (sampleState (sampleQR sampleFile (Some ''abcd''))))) =
     [''id'', ''title'', ''contentType'', ''scanCount'', ''createdDate'', ''isPasswordProtected'',
      ''description'']"
    by (simp add: getQRScanInfo_def findOneActive_def sampleState_def sampleQR_def
          newDynamicQR_def infoKeys_def)
  then have m: "''description'' \<in> set (infoKeys (snd (getQRScanInfo Map.empty ''q1''
                 (sampleState (sampleQR sampleFile (Some ''abcd''))))))"
    by simp
  have n: "''description'' \<notin>
     {''id'', ''title'', ''contentType'', ''scanCount'', ''createdDate'', ''isPasswordProtected''}"
    by simp
  from m n show ?thesis by metis
qed

text \<open>
  C10, amended. For an active record with a password set, the answer holds the id, the
  title, the content type, the scan count, the creation date, the flag, and under
  \<open>description\<close> a fixed notice, and nothing else: two such records that agree on those
  five values get the same answer, whatever their content, \<open>lastScanned\<close>, history and
  passwords are.
\<close>

theorem protected_info:
  assumes "db s i = Some q" "isActive q" "truthy (password (qsettings q))"
    and "db s' i = Some q'" "isActive q'" "truthy (password (qsettings q'))"
    and "qr_id q = qr_id q'" "title q = title q'"
    and "ctype (currentContent q) = ctype (currentContent q')"
    and "scanCount q = scanCount q'" "createdDate q = createdDate q'"
  shows "getQRScanInfo h i s =
           (s, Json 200 (JObj [(''success'', JBool True),
                  (''qr'', JObj [(''id'', JStr (qr_id q)),
                                 (''title'', JStr (title q)),
                                 (''contentType'', JStr (ctype (currentContent q))),
                                 (''scanCount'', JNum (scanCount q)),
                                 (''createdDate'', JDate (createdDate q)),
                                 (''isPasswordProtected'', JBool True),
                                 (''description'', JStr ''Bu QR code parol bilan himoyalangan'')])])) \<and>
         snd (getQRScanInfo h i s) = snd (getQRScanInfo h' i s')"
  using assms by (simp add: getQRScanInfo_def findOneActive_def)

theorem protected_info_witness:
  "snd (getQRScanInfo Map.empty ''q1'' (sampleState (sampleQR sampleFile (Some ''abcd'')))) =
   snd (getQRScanInfo Map.empty ''q1''
          (sampleState ((sampleQR sampleSecret (Some ''wxyz''))\<lparr>lastScanned := Some 5\<rparr>)))"
proof -
  let ?q = "sampleQR sampleFile (Some ''abcd'')"
  let ?q' = "(sampleQR sampleSecret (Some ''wxyz''))\<lparr>lastScanned := Some 5\<rparr>"
  have h: "db (sampleState ?q) ''q1'' = Some ?q" "isActive ?q" "truthy (password (qsettings ?q))"
    by (simp_all add: sampleState_def sampleQR_def newDynamicQR_def)
  have h': "db (sampleState ?q') ''q1'' = Some ?q'" "isActive ?q'"
    "truthy (password (qsettings ?q'))"
    by (simp_all add: sampleState_def sampleQR_def newDynamicQR_def)
  have a: "qr_id ?q = qr_id ?q'" "title ?q = title ?q'"
    "ctype (currentContent ?q) = ctype (currentContent ?q')"
    "scanCount ?q = scanCount ?q'" "createdDate ?q = createdDate ?q'"
    by (simp_all add: sampleQR_def sampleFile_def sampleSecret_def newDynamicQR_def)
  from protected_info [OF h h' a, of Map.empty Map.empty] show ?thesis
    by (rule conjunct2)
qed

end
